theory Spec2Isabelle
  imports Complex_Main
begin

section \<open>Double-precision values\<close>

text \<open>
  A C++ \<^verbatim>\<open>double\<close> is modelled by \<open>dbl\<close>: a finite value carries the real number
  it stands for, and the three special values of IEEE 754 arithmetic are kept apart, so
  that a division by zero has the result the machine gives it (an infinity or a NaN) and
  not the value \<open>0\<close> of HOL's total division. Rounding and overflow of finite results
  are not modelled, and the two signed zeros are one value \<open>Fin 0\<close>.
\<close>

datatype dbl = Fin real | PInf | NInf | NaN

fun dneg :: "dbl \<Rightarrow> dbl" where
  "dneg (Fin a) = Fin (- a)"
| "dneg PInf = NInf"
| "dneg NInf = PInf"
| "dneg NaN = NaN"

fun dadd :: "dbl \<Rightarrow> dbl \<Rightarrow> dbl" where
  "dadd (Fin a) (Fin b) = Fin (a + b)"
| "dadd NaN _ = NaN"
| "dadd _ NaN = NaN"
| "dadd PInf NInf = NaN"
| "dadd NInf PInf = NaN"
| "dadd PInf _ = PInf"
| "dadd _ PInf = PInf"
| "dadd NInf _ = NInf"
| "dadd _ NInf = NInf"

definition dsub :: "dbl \<Rightarrow> dbl \<Rightarrow> dbl" where
  "dsub a b = dadd a (dneg b)"

fun dmul :: "dbl \<Rightarrow> dbl \<Rightarrow> dbl" where
  "dmul (Fin a) (Fin b) = Fin (a * b)"
| "dmul NaN _ = NaN"
| "dmul _ NaN = NaN"
| "dmul PInf (Fin b) = (if b = 0 then NaN else if 0 < b then PInf else NInf)"
| "dmul NInf (Fin b) = (if b = 0 then NaN else if 0 < b then NInf else PInf)"
| "dmul (Fin a) PInf = (if a = 0 then NaN else if 0 < a then PInf else NInf)"
| "dmul (Fin a) NInf = (if a = 0 then NaN else if 0 < a then NInf else PInf)"
| "dmul PInf PInf = PInf"
| "dmul NInf NInf = PInf"
| "dmul PInf NInf = NInf"
| "dmul NInf PInf = NInf"

fun ddiv :: "dbl \<Rightarrow> dbl \<Rightarrow> dbl" where
  "ddiv (Fin a) (Fin b) =
     (if b = 0 then (if a = 0 then NaN else if 0 < a then PInf else NInf)
      else Fin (a / b))"
| "ddiv NaN _ = NaN"
| "ddiv _ NaN = NaN"
| "ddiv (Fin a) PInf = Fin 0"
| "ddiv (Fin a) NInf = Fin 0"
| "ddiv PInf (Fin b) = (if b < 0 then NInf else PInf)"
| "ddiv NInf (Fin b) = (if b < 0 then PInf else NInf)"
| "ddiv PInf PInf = NaN"
| "ddiv PInf NInf = NaN"
| "ddiv NInf PInf = NaN"
| "ddiv NInf NInf = NaN"

text \<open>The comparisons \<^verbatim>\<open><\<close>, \<^verbatim>\<open>>\<close> and \<^verbatim>\<open>>=\<close>: every comparison with a NaN is false.\<close>

fun dlt :: "dbl \<Rightarrow> dbl \<Rightarrow> bool" where
  "dlt (Fin a) (Fin b) = (a < b)"
| "dlt NaN _ = False"
| "dlt _ NaN = False"
| "dlt NInf NInf = False"
| "dlt NInf _ = True"
| "dlt _ NInf = False"
| "dlt PInf _ = False"
| "dlt (Fin a) PInf = True"

definition dgt :: "dbl \<Rightarrow> dbl \<Rightarrow> bool" where
  "dgt a b = dlt b a"

definition dge :: "dbl \<Rightarrow> dbl \<Rightarrow> bool" where
  "dge a b = (dlt b a \<or> (a = b \<and> a \<noteq> NaN))"

fun dfabs :: "dbl \<Rightarrow> dbl" where
  "dfabs (Fin a) = Fin \<bar>a\<bar>"
| "dfabs PInf = PInf"
| "dfabs NInf = PInf"
| "dfabs NaN = NaN"

fun dexp :: "dbl \<Rightarrow> dbl" where
  "dexp (Fin a) = Fin (exp a)"
| "dexp PInf = PInf"
| "dexp NInf = Fin 0"
| "dexp NaN = NaN"

text \<open>The GSL macro \<^verbatim>\<open>GSL_MIN(a,b)\<close> is \<^verbatim>\<open>((a) < (b) ? (a) : (b))\<close>.\<close>

definition GSL_MIN :: "dbl \<Rightarrow> dbl \<Rightarrow> dbl" where
  "GSL_MIN a b = (if dlt a b then a else b)"

text \<open>\<^verbatim>\<open>gsl_pow_3\<close> of the GSL is the inline product \<^verbatim>\<open>x*x*x\<close>.\<close>

definition gsl_pow_3 :: "dbl \<Rightarrow> dbl" where
  "gsl_pow_3 v = dmul (dmul v v) v"

text \<open>
  Modelled from the spec: the upper-case macros \<^verbatim>\<open>GSL_POW_2\<close>, \<^verbatim>\<open>GSL_POW_3\<close> and
  \<^verbatim>\<open>GSL_POW_4\<close> used by the helper routines are declared nowhere in the source
  files at hand; the spec reads them as the second, third and fourth power.
\<close>

definition GSL_POW_2 :: "dbl \<Rightarrow> dbl" where
  "GSL_POW_2 v = dmul v v"

definition GSL_POW_3 :: "dbl \<Rightarrow> dbl" where
  "GSL_POW_3 v = dmul (dmul v v) v"

definition GSL_POW_4 :: "dbl \<Rightarrow> dbl" where
  "GSL_POW_4 v = dmul (dmul (dmul v v) v) v"

section \<open>Errors and the values of a parameter map\<close>

text \<open>
  Every way the program leaves its normal control flow is a value of \<open>error\<close>:
  \<^item> \<open>Bad_any_cast\<close>: \<^verbatim>\<open>boost::bad_any_cast\<close>, thrown by \<^verbatim>\<open>boost::any_cast<T>\<close> (and by
    \<^verbatim>\<open>variable_value::as<T>\<close>) when the value held is not a \<^verbatim>\<open>T\<close>;
  \<^item> \<open>Exit_failure\<close>: a message on \<^verbatim>\<open>std::cerr\<close> followed by \<^verbatim>\<open>exit( EXIT_FAILURE )\<close>;
  \<^item> \<open>Property_missing\<close>: a zone property that is read but was never set;
  \<^item> \<open>Modulo_by_zero\<close>: the integer remainder by zero of the checkpoint test;
  \<^item> \<open>Engine_failure\<close>: any failure raised inside a collaborator (the network engine,
    the root finder, the integrator).
  No function of the program catches any of them after start-up: each ends the run.
\<close>

datatype error = Bad_any_cast | Exit_failure | Property_missing | Modulo_by_zero | Engine_failure

definition bindE :: "error + 'a \<Rightarrow> ('a \<Rightarrow> error + 'b) \<Rightarrow> error + 'b" where
  "bindE m f = (case m of Inl e \<Rightarrow> Inl e | Inr v \<Rightarrow> f v)"

text \<open>
  A \<^verbatim>\<open>boost::any\<close> holds nothing, a \<^verbatim>\<open>double\<close>, a string (a \<^verbatim>\<open>std::string\<close> or the
  character pointer a string constant decays to) or a \<^verbatim>\<open>size_t\<close>; the pointers the
  driver also keeps in its parameter map (the network and its view) play no part here.
\<close>

datatype boost_any = Any_empty | Any_double dbl | Any_string string | Any_size nat

fun any_cast_double :: "boost_any \<Rightarrow> error + dbl" where
  "any_cast_double (Any_double d) = Inr d"
| "any_cast_double _ = Inl Bad_any_cast"

fun any_cast_string :: "boost_any \<Rightarrow> error + string" where
  "any_cast_string (Any_string s) = Inr s"
| "any_cast_string _ = Inl Bad_any_cast"

fun any_cast_size :: "boost_any \<Rightarrow> error + nat" where
  "any_cast_size (Any_size n) = Inr n"
| "any_cast_size _ = Inl Bad_any_cast"

text \<open>
  \<^verbatim>\<open>param_map_t\<close> is \<^verbatim>\<open>std::map<std::string, boost::any>\<close>. Reading \<^verbatim>\<open>param_map[key]\<close> for
  a key that is absent yields an empty \<^verbatim>\<open>boost::any\<close>, so the map is a total function
  with \<open>Any_empty\<close> off its keys. A \<^verbatim>\<open>po::variables_map\<close> is read the same way.
\<close>

type_synonym param_map_t = "string \<Rightarrow> boost_any"

type_synonym state_type = "dbl list"

text \<open>
  Modelled from the spec: the key strings of \<^verbatim>\<open>nnt/string_defs.h\<close> are not among the
  source files at hand. They are string constants (the program uses them as keys of the
  parameter map and as option names); the values below are pairwise different
  and different from the keys the helper's own header defines, which is all that is used.
\<close>

definition s_T9_0 :: string where "s_T9_0 = ''t9_0''"
definition s_RHO_0 :: string where "s_RHO_0 = ''rho_0''"
definition s_TAU :: string where "s_TAU = ''tau''"
definition s_TIME :: string where "s_TIME = ''time''"
definition s_DTIME :: string where "s_DTIME = ''dt''"
definition s_TEND :: string where "s_TEND = ''tend''"
definition s_STEPS :: string where "s_STEPS = ''steps''"
definition s_T9 :: string where "s_T9 = ''t9''"
definition s_RHO :: string where "s_RHO = ''rho''"
definition s_ENTROPY_PER_NUCLEON :: string where "s_ENTROPY_PER_NUCLEON = ''entropy per nucleon''"

text \<open>The keys of \<^verbatim>\<open>my_hydro_helper.h\<close> and of \<^verbatim>\<open>run_entropy.cpp\<close>.\<close>

definition S_DELTA_TRAJ :: string where "S_DELTA_TRAJ = ''delta''"
definition S_RHO_1 :: string where "S_RHO_1 = ''rho_1''"
definition S_RHO_2 :: string where "S_RHO_2 = ''rho_2''"
definition S_ROOT_FACTOR :: string where "S_ROOT_FACTOR = ''root_factor''"
definition S_X :: string where "S_X = ''x''"
definition S_OBSERVE :: string where "S_OBSERVE = ''observe''"
definition S_T9_GUESS :: string where "S_T9_GUESS = ''t9_guess''"

section \<open>The helper routines of \<^verbatim>\<open>my_hydro_helper.cpp\<close>\<close>

subsection \<open>\<^verbatim>\<open>set_user_defined_options\<close>\<close>



subsection \<open>\<^verbatim>\<open>initialize_state\<close>\<close>

text \<open>
  The source reads the time scale and the initial density as
  \<^verbatim>\<open>boost::any_cast<double>( nnt::s_TAU )\<close> and \<^verbatim>\<open>boost::any_cast<double>( nnt::s_RHO_0 )\<close>:
  the cast is applied to the key string itself (which converts to a \<^verbatim>\<open>boost::any\<close>
  holding a string), not to \<^verbatim>\<open>param_map[nnt::s_TAU]\<close>. The model keeps that. The operands
  are evaluated from left to right; C++ leaves the order open, and every failing operand
  throws the same exception. The vector is updated in place, so the first
  assignment has happened when the second statement throws; the driver does not catch
  the exception, and the model returns the error alone.
\<close>

definition initialize_state :: "param_map_t \<Rightarrow> state_type \<Rightarrow> error + state_type" where
  "initialize_state param_map x =
     (let x = x[0 := Fin 1] in
      bindE (any_cast_double (param_map S_RHO_1)) (\<lambda>rho_1.
      bindE (any_cast_double (Any_string s_TAU)) (\<lambda>tau.
      bindE (any_cast_double (param_map S_RHO_2)) (\<lambda>rho_2.
      bindE (any_cast_double (param_map S_DELTA_TRAJ)) (\<lambda>delta.
      bindE (any_cast_double (Any_string s_RHO_0)) (\<lambda>rho_0.
        Inr (x[1 :=
          ddiv
            (dmul (GSL_POW_4 (x ! 0))
               (dadd (ddiv rho_1 tau) (ddiv (dmul (Fin 2) rho_2) delta)))
            (dmul (Fin 3) rho_0)])))))))"

subsection \<open>\<^verbatim>\<open>rho_function\<close>\<close>

definition rho_function :: "param_map_t \<Rightarrow> state_type \<Rightarrow> error + dbl" where
  "rho_function param_map x =
     bindE (any_cast_double (param_map s_RHO_0)) (\<lambda>rho_0.
       Inr (ddiv rho_0 (gsl_pow_3 (x ! 0))))"

subsection \<open>\<^verbatim>\<open>acceleration\<close>\<close>

text \<open>
  The statement that assigns \<^verbatim>\<open>x[2]\<close> leaves four parentheses open in the source, and
  assigns through a reference to a constant vector; the model reads it as its indentation
  lays it out, with

  \<^verbatim>\<open>x[2] = x0^3 * ( 4 x1 ( (rho_1/tau) e + 2 rho_2/delta ) - x0 ( (rho_1/tau^2) e + 6 rho_2/delta^2 ) ) / (3 rho_0)\<close>

  where \<^verbatim>\<open>e = exp( -time / tau )\<close>, and returns the vector with the value. As in
  \<^verbatim>\<open>initialize_state\<close>, three operands are \<^verbatim>\<open>boost::any_cast<double>\<close> of a key string
  (\<^verbatim>\<open>nnt::s_TAU\<close> twice, \<^verbatim>\<open>nnt::s_RHO_0\<close> once) where the exponentials and the
  \<^verbatim>\<open>return\<close> statement read \<^verbatim>\<open>param_map[nnt::s_TAU]\<close>. The zone is an argument the body
  never uses.
\<close>

definition acceleration ::
  "param_map_t \<Rightarrow> 'z \<Rightarrow> state_type \<Rightarrow> dbl \<Rightarrow> error + (dbl \<times> state_type)" where
  "acceleration param_map zone x time =
     bindE (any_cast_double (param_map S_RHO_1)) (\<lambda>rho_1.
     bindE (any_cast_double (Any_string s_TAU)) (\<lambda>tau_key.
     bindE (any_cast_double (param_map s_TAU)) (\<lambda>tau.
     bindE (any_cast_double (param_map S_RHO_2)) (\<lambda>rho_2.
     bindE (any_cast_double (param_map S_DELTA_TRAJ)) (\<lambda>delta.
     bindE (any_cast_double (Any_string s_TAU)) (\<lambda>tau_key'.
     bindE (any_cast_double (Any_string s_RHO_0)) (\<lambda>rho_0_key.
       let e = dexp (ddiv (dneg time) tau);
           driving =
             dmul (dmul (Fin 4) (x ! 1))
               (dadd (dmul (ddiv rho_1 tau_key) e) (ddiv (dmul (Fin 2) rho_2) delta));
           restoring =
             dmul (x ! 0)
               (dadd (dmul (ddiv rho_1 (GSL_POW_2 tau_key')) e)
                  (ddiv (dmul (Fin 6) rho_2) (GSL_POW_2 delta)));
           x = x[2 :=
             ddiv (dmul (GSL_POW_3 (x ! 0)) (dsub driving restoring))
               (dmul (Fin 3) rho_0_key)]
       in
         bindE (any_cast_double (param_map s_TAU)) (\<lambda>tau'.
           Inr (ddiv (x ! 1) (dmul (Fin 3) tau'), x)))))))))"

subsection \<open>Parameter sets\<close>

text \<open>
  The options as \<^verbatim>\<open>get_user_defined_descriptions\<close> declares them, each a
  \<^verbatim>\<open>double\<close> with its default value: the command line of a run that sets none of them.
\<close>

definition default_vmap :: param_map_t where
  "default_vmap =
     (\<lambda>key. Any_empty)
       (s_T9_0 := Any_double (Fin 10),
        s_RHO_0 := Any_double (Fin 100000000),
        S_RHO_1 := Any_double (Fin 90000000),
        s_TAU := Any_double (Fin (1 / 10)),
        S_DELTA_TRAJ := Any_double (Fin (1 / 10)),
        S_ROOT_FACTOR := Any_double (Fin (1001 / 1000)))"

text \<open>The parameter map \<^verbatim>\<open>set_user_defined_options\<close> makes of the default options.\<close>

definition default_param_map :: param_map_t where
  "default_param_map = default_vmap (S_RHO_2 := Any_double (Fin 10000000))"


section \<open>The zone\<close>

text \<open>
  Modelled from the spec: the zone (\<^verbatim>\<open>nnt::Zone\<close> around a \<^verbatim>\<open>Libnucnet__Zone\<close>) belongs to the
  network engine, whose code is not among the source files at hand. The spec gives it a
  composition (abundances and their last changes), and a string-keyed store of scalar
  properties with typed access that fails when a key is absent; whatever else the engine
  keeps (the network, its views, rate data) is the field \<open>engine\<close>. A property is named
  by a string and up to two tags, here a list of strings. \<^verbatim>\<open>Libnucnet__Zone__getAbundances\<close>
  hands out a new vector holding a copy of the abundances, and
  \<^verbatim>\<open>Libnucnet__Zone__updateAbundances\<close> overwrites the zone's abundances with a vector; the
  same holds of the abundance changes.
\<close>

record 'e zone =
  properties :: "string list \<rightharpoonup> dbl"
  abundances :: "dbl list"
  abundance_changes :: "dbl list"
  engine :: 'e

definition getProperty :: "'e zone \<Rightarrow> string list \<Rightarrow> error + dbl" where
  "getProperty z key = (case properties z key of None \<Rightarrow> Inl Property_missing | Some v \<Rightarrow> Inr v)"

definition updateProperty :: "'e zone \<Rightarrow> string list \<Rightarrow> dbl \<Rightarrow> 'e zone" where
  "updateProperty z key v = z\<lparr>properties := (properties z)(key \<mapsto> v)\<rparr>"

definition Libnucnet__Zone__getAbundances :: "'e zone \<Rightarrow> dbl list" where
  "Libnucnet__Zone__getAbundances z = abundances z"

definition Libnucnet__Zone__getAbundanceChanges :: "'e zone \<Rightarrow> dbl list" where
  "Libnucnet__Zone__getAbundanceChanges z = abundance_changes z"

definition Libnucnet__Zone__updateAbundances :: "'e zone \<Rightarrow> dbl list \<Rightarrow> 'e zone" where
  "Libnucnet__Zone__updateAbundances z p_abundances = z\<lparr>abundances := p_abundances\<rparr>"

definition Libnucnet__Zone__updateAbundanceChanges :: "'e zone \<Rightarrow> dbl list \<Rightarrow> 'e zone" where
  "Libnucnet__Zone__updateAbundanceChanges z p_abundance_changes =
     z\<lparr>abundance_changes := p_abundance_changes\<rparr>"

text \<open>
  The functions the driver attaches to the zone (\<^verbatim>\<open>zone.updateFunction\<close>) and the
  right-hand side fetches again (\<^verbatim>\<open>zone.getFunction\<close>). Each is bound to the zone by
  reference, so each may read and change the zone and may fail: an entry takes the zone
  and returns its result with the zone it leaves behind. The observer is attached only
  when observing is switched on (\<^verbatim>\<open>zone.hasFunction\<close>). \<open>'v\<close> is the type of a network
  view.
\<close>

record ('e, 'v) zone_functions =
  rho_function_entry :: "state_type \<Rightarrow> 'e zone \<Rightarrow> error + (dbl \<times> 'e zone)"
  t9_function_entry :: "'v \<Rightarrow> 'e zone \<Rightarrow> error + (dbl \<times> 'e zone)"
  evolution_function_entry :: "'v \<Rightarrow> dbl \<Rightarrow> 'e zone \<Rightarrow> error + 'e zone"
  acceleration_function_entry :: "state_type \<Rightarrow> dbl \<Rightarrow> 'e zone \<Rightarrow> error + (dbl \<times> 'e zone)"
  entropy_generation_function_entry :: "'v \<Rightarrow> 'e zone \<Rightarrow> error + (dbl \<times> 'e zone)"
  observer_function_entry ::
    "(state_type \<Rightarrow> state_type \<Rightarrow> dbl \<Rightarrow> 'e zone \<Rightarrow> error + 'e zone) option"

section \<open>The right-hand side \<^verbatim>\<open>entropy_generation_rhs::operator()\<close>\<close>

text \<open>
  The call takes the state \<^verbatim>\<open>x\<close>, the derivative vector \<^verbatim>\<open>dxdt\<close> it fills and the time
  \<^verbatim>\<open>d_t\<close>, and works on the zone the object refers to; the model returns the derivative
  and the zone. The statements are those of the source, in its order.
\<close>

definition entropy_generation_rhs ::
  "('e, 'v) zone_functions \<Rightarrow> 'v \<Rightarrow> state_type \<Rightarrow> state_type \<Rightarrow> dbl \<Rightarrow> 'e zone \<Rightarrow>
     error + (state_type \<times> 'e zone)" where
  "entropy_generation_rhs funcs pView x dxdt d_t zone =
     (let p_abundances = Libnucnet__Zone__getAbundances zone;
          p_abundance_changes = Libnucnet__Zone__getAbundanceChanges zone
      in
      bindE (getProperty zone [s_T9]) (\<lambda>d_t9_old.
      bindE (getProperty zone [s_TIME]) (\<lambda>time.
        let d_dt = dsub d_t time;
            zone = updateProperty zone [s_DTIME] d_dt;
            zone = updateProperty zone [s_ENTROPY_PER_NUCLEON] (x ! 2)
        in
        bindE (rho_function_entry funcs x zone) (\<lambda>(rho, zone).
        let zone = updateProperty zone [s_RHO] rho in
        bindE (t9_function_entry funcs pView zone) (\<lambda>(t9, zone).
        let zone = updateProperty zone [s_T9] t9 in
        bindE (evolution_function_entry funcs pView d_dt zone) (\<lambda>zone.
        let dxdt = dxdt[0 := x ! 1] in
        bindE (acceleration_function_entry funcs x d_t zone) (\<lambda>(acc, zone).
        let dxdt = dxdt[1 := acc] in
        bindE (entropy_generation_function_entry funcs pView zone)
          (\<lambda>(d_entropy_generation, zone).
        let dxdt = dxdt[2 := d_entropy_generation] in
        bindE (case observer_function_entry funcs of
                 None \<Rightarrow> Inr zone
               | Some observer \<Rightarrow> observer x dxdt d_t zone) (\<lambda>zone.
        let zone = Libnucnet__Zone__updateAbundances zone p_abundances;
            zone = Libnucnet__Zone__updateAbundanceChanges zone p_abundance_changes;
            zone = updateProperty zone [s_T9] d_t9_old
        in Inr (dxdt, zone))))))))))"

section \<open>The driver \<^verbatim>\<open>main\<close> of \<^verbatim>\<open>run_entropy.cpp\<close>\<close>

subsection \<open>Constants\<close>

definition D_REG_T :: dbl where "D_REG_T = Fin (15 / 100)"
definition D_REG_Y :: dbl where "D_REG_Y = Fin (15 / 100)"
definition D_X_REG_T :: dbl where "D_X_REG_T = Fin (15 / 100)"
definition D_Y_MIN_DT :: dbl where "D_Y_MIN_DT = Fin (1 / 10 ^ 10)"
definition D_LIM_CUTOFF :: dbl where "D_LIM_CUTOFF = Fin (1 / 10 ^ 25)"
definition B_OUTPUT_EVERY_TIME_DUMP :: bool where "B_OUTPUT_EVERY_TIME_DUMP = False"

text \<open>\<^verbatim>\<open>x_lim = boost::assign::list_of(1.e-10)(1.)(1.e-5)\<close>\<close>

definition x_lim :: state_type where
  "x_lim = [Fin (1 / 10 ^ 10), Fin 1, Fin (1 / 10 ^ 5)]"

subsection \<open>The collaborators and the local variables\<close>

text \<open>
  Modelled from the spec: the integrator (\<^verbatim>\<open>boost::numeric::odeint\<close>), the root finder and
  the network engine (\<^verbatim>\<open>nnt\<close>, \<^verbatim>\<open>user\<close>, \<^verbatim>\<open>Libnucnet\<close>) are not among the source files at
  hand; the spec treats them as opaque capabilities that work on the zone and may fail.
  They are the fields of a record the driver is given:
  \<^item> \<open>do_step\<close>: one step of the multistep integrator for a right-hand side, from state
    \<^verbatim>\<open>x\<close> at time \<^verbatim>\<open>t\<close> over \<^verbatim>\<open>dt\<close>; it owns a history of type \<open>'s\<close> and calls the
    right-hand side on the zone as often as it likes;
  \<^item> \<open>getNetView\<close>: \<^verbatim>\<open>zone.getNetView( EVOLUTION_NETWORK )\<close>;
  \<^item> \<open>compute_1d_root\<close>: \<^verbatim>\<open>nnt::compute_1d_root\<close> applied to \<^verbatim>\<open>user::t9_from_entropy_root\<close>
    for a view, from a guess and a root expansion factor;
  \<^item> \<open>evolve_function\<close>, \<open>compute_entropy\<close>, \<open>compute_entropy_generation_rate\<close>,
    \<open>limit_evolution_network\<close>: the routines of \<^verbatim>\<open>user\<close> with these names;
  \<^item> \<open>Libnucnet__Zone__updateTimeStep\<close>: the engine's step size for the next step, from
    the zone, the last step size and the three regulators;
  \<^item> \<open>Libnucnet__relabelZone\<close>: the zone relabelled with the number of the dump.
\<close>

record ('e, 's, 'v) collaborators =
  do_step ::
    "(state_type \<Rightarrow> state_type \<Rightarrow> dbl \<Rightarrow> 'e zone \<Rightarrow> error + (state_type \<times> 'e zone)) \<Rightarrow>
     's \<Rightarrow> state_type \<Rightarrow> dbl \<Rightarrow> dbl \<Rightarrow> 'e zone \<Rightarrow> error + (state_type \<times> 's \<times> 'e zone)"
  getNetView :: "'e zone \<Rightarrow> error + ('v \<times> 'e zone)"
  compute_1d_root :: "'v \<Rightarrow> dbl \<Rightarrow> dbl \<Rightarrow> 'e zone \<Rightarrow> error + (dbl \<times> 'e zone)"
  evolve_function :: "'v \<Rightarrow> dbl \<Rightarrow> 'e zone \<Rightarrow> error + 'e zone"
  compute_entropy :: "'e zone \<Rightarrow> error + (dbl \<times> 'e zone)"
  compute_entropy_generation_rate :: "'v \<Rightarrow> 'e zone \<Rightarrow> error + (dbl \<times> 'e zone)"
  limit_evolution_network :: "dbl \<Rightarrow> 'e zone \<Rightarrow> error + 'e zone"
  Libnucnet__Zone__updateTimeStep :: "'e zone \<Rightarrow> dbl \<Rightarrow> dbl \<Rightarrow> dbl \<Rightarrow> dbl \<Rightarrow> dbl"
  Libnucnet__relabelZone :: "'e zone \<Rightarrow> int \<Rightarrow> 'e zone"

text \<open>
  The local variables of \<^verbatim>\<open>main\<close> that the stepping loop reads and writes, under their
  names in the source, with the zone and the integrator's history. The output is counted:
  \<open>output_zones\<close> is the number of zones \<^verbatim>\<open>nnt::write_xml\<close> has added to the output
  structure in memory, \<open>files_written\<close> the number of calls of
  \<^verbatim>\<open>Libnucnet__writeToXmlFile\<close>. The step counter is a \<^verbatim>\<open>size_t\<close>; it is a natural number
  here, its wrap-around after \<open>2^64\<close> steps left out.
\<close>

record ('e, 's) main_locals =
  main_d_t :: dbl
  main_d_dt :: dbl
  main_d_t9_old :: dbl
  main_d_dt9dt :: dbl
  main_x :: state_type
  main_xold :: state_type
  main_i_step :: nat
  main_k :: int
  main_zone :: "'e zone"
  main_stepper :: 's
  output_zones :: nat
  files_written :: nat

subsection \<open>\<^verbatim>\<open>t9_function\<close> of the helper, and the functions \<^verbatim>\<open>main\<close> attaches to the zone\<close>

definition t9_function ::
  "('e, 's, 'v) collaborators \<Rightarrow> 'e zone \<Rightarrow> param_map_t \<Rightarrow> 'v \<Rightarrow> error + (dbl \<times> 'e zone)" where
  "t9_function env zone param_map p_view =
     bindE (getProperty zone [s_T9]) (\<lambda>guess.
     bindE (any_cast_double (param_map S_ROOT_FACTOR)) (\<lambda>root_factor.
       compute_1d_root env p_view guess root_factor zone))"

text \<open>
  \<^verbatim>\<open>observer_function\<close> reads the zone's time and prints; printing is not modelled. The
  acceleration is attached with the signature \<^verbatim>\<open>double( const state_type&, double )\<close>, so
  the vector it returns is dropped.
\<close>

definition observer_function ::
  "'e zone \<Rightarrow> state_type \<Rightarrow> state_type \<Rightarrow> dbl \<Rightarrow> error + 'e zone" where
  "observer_function zone x dxdt d_t = bindE (getProperty zone [s_TIME]) (\<lambda>time. Inr zone)"

definition main_functions ::
  "('e, 's, 'v) collaborators \<Rightarrow> param_map_t \<Rightarrow> error + ('e, 'v) zone_functions" where
  "main_functions env param_map =
     bindE (any_cast_string (param_map S_OBSERVE)) (\<lambda>observe.
       Inr \<lparr> rho_function_entry =
               (\<lambda>x zone. bindE (rho_function param_map x) (\<lambda>rho. Inr (rho, zone))),
             t9_function_entry = (\<lambda>p_view zone. t9_function env zone param_map p_view),
             evolution_function_entry = evolve_function env,
             acceleration_function_entry =
               (\<lambda>x time zone.
                  bindE (acceleration param_map zone x time) (\<lambda>(a, x'). Inr (a, zone))),
             entropy_generation_function_entry = compute_entropy_generation_rate env,
             observer_function_entry =
               (if observe = ''yes''
                then Some (\<lambda>x dxdt d_t zone. observer_function zone x dxdt d_t)
                else None) \<rparr>)"

subsection \<open>The start of the run\<close>

text \<open>
  Lines 893 to 920: temperature and density of the zone from the parameters, the locals,
  the start vector from \<^verbatim>\<open>initialize_state\<close> (on the three zeros of \<^verbatim>\<open>x(3)\<close>), the entropy
  into \<^verbatim>\<open>x[2]\<close>, the first limiting of the network. The string property set in line 907
  is left out.
\<close>

definition initialize_system ::
  "('e, 's, 'v) collaborators \<Rightarrow> param_map_t \<Rightarrow> 'e zone \<Rightarrow> 's \<Rightarrow>
     error + ('e, 's) main_locals" where
  "initialize_system env param_map zone stepper =
     bindE (any_cast_double (param_map s_T9_0)) (\<lambda>t9_0.
     let zone = updateProperty zone [s_T9] t9_0 in
     bindE (any_cast_double (param_map s_RHO_0)) (\<lambda>rho_0.
     let zone = updateProperty zone [s_RHO] rho_0 in
     bindE (getProperty zone [s_T9]) (\<lambda>d_t9_old.
     bindE (any_cast_double (param_map s_DTIME)) (\<lambda>d_dt.
     bindE (any_cast_double (param_map s_TIME)) (\<lambda>d_t.
     bindE (initialize_state param_map [Fin 0, Fin 0, Fin 0]) (\<lambda>x.
     bindE (compute_entropy env zone) (\<lambda>(entropy, zone).
     let x = x[2 := entropy] in
     bindE (limit_evolution_network env D_LIM_CUTOFF zone) (\<lambda>zone.
       Inr \<lparr> main_d_t = d_t, main_d_dt = d_dt, main_d_t9_old = d_t9_old,
             main_d_dt9dt = Fin 0, main_x = x, main_xold = [Fin 0, Fin 0, Fin 0],
             main_i_step = 0, main_k = 0, main_zone = zone, main_stepper = stepper,
             output_zones = 0, files_written = 0 \<rparr>))))))))"

subsection \<open>One pass of the loop body\<close>

text \<open>Lines 939 to 963: set the time, save the old state, take the step.\<close>

definition evolve_step ::
  "('e, 's, 'v) collaborators \<Rightarrow> ('e, 'v) zone_functions \<Rightarrow> 'v option \<Rightarrow>
     ('e, 's) main_locals \<Rightarrow> error + ('e, 's) main_locals" where
  "evolve_step env funcs p_view st =
     (let zone = updateProperty (main_zone st) [s_TIME] (main_d_t st);
          xold = main_x st
      in
      bindE (case p_view of Some v \<Rightarrow> Inr (v, zone) | None \<Rightarrow> getNetView env zone)
        (\<lambda>(p_sdot_view, zone).
      bindE (do_step env (entropy_generation_rhs funcs p_sdot_view) (main_stepper st)
               (main_x st) (main_d_t st) (main_d_dt st) zone)
        (\<lambda>(x, stepper, zone).
          Inr (st\<lparr>main_xold := xold, main_x := x, main_stepper := stepper,
                  main_zone := zone\<rparr>))))"

text \<open>
  Lines 969 to 1020: advance the time, commit density, entropy and temperature to the
  zone, and evolve the abundances over the step.
\<close>

definition update_properties ::
  "('e, 's, 'v) collaborators \<Rightarrow> ('e, 'v) zone_functions \<Rightarrow> param_map_t \<Rightarrow>
     ('e, 's) main_locals \<Rightarrow> error + ('e, 's) main_locals" where
  "update_properties env funcs param_map st =
     (let d_dt = main_d_dt st;
          d_t = dadd (main_d_t st) d_dt;
          x = main_x st;
          zone = updateProperty (main_zone st) [s_DTIME] d_dt;
          zone = updateProperty zone [s_TIME] d_t
      in
      bindE (rho_function param_map x) (\<lambda>rho.
      let zone = updateProperty zone [s_RHO] rho;
          zone = updateProperty zone [s_ENTROPY_PER_NUCLEON] (x ! 2)
      in
      bindE (any_cast_string (param_map S_T9_GUESS)) (\<lambda>guess.
      let zone =
            (if guess = ''yes''
             then updateProperty zone [s_T9]
                    (dadd (main_d_t9_old st) (dmul (main_d_dt9dt st) d_dt))
             else zone)
      in
      bindE (getNetView env zone) (\<lambda>(view, zone).
      bindE (t9_function env zone param_map view) (\<lambda>(t9, zone).
      let zone = updateProperty zone [s_T9] t9 in
      bindE (any_cast_string (param_map S_T9_GUESS)) (\<lambda>guess'.
      bindE (if guess' = ''yes''
             then bindE (getProperty zone [s_T9]) (\<lambda>t9_now.
                  bindE (getProperty zone [s_T9]) (\<lambda>t9_now'.
                    Inr (ddiv (dsub t9_now (main_d_t9_old st)) d_dt, t9_now')))
             else Inr (main_d_dt9dt st, main_d_t9_old st))
        (\<lambda>(d_dt9dt, d_t9_old).
      bindE (getNetView env zone) (\<lambda>(view', zone).
      bindE (evolution_function_entry funcs view' d_dt zone) (\<lambda>zone.
      let zone = updateProperty zone [S_X, ''0''] (x ! 0);
          zone = updateProperty zone [S_X, ''1''] (x ! 1)
      in
        Inr (st\<lparr>main_d_t := d_t, main_d_t9_old := d_t9_old, main_d_dt9dt := d_dt9dt,
                main_zone := zone\<rparr>))))))))))"

text \<open>
  Lines 1026 to 1056: the dump of the abundances, every \<^verbatim>\<open>steps\<close> steps and at the last
  step. The remainder \<^verbatim>\<open>i_step++ % steps\<close> is undefined for \<^verbatim>\<open>steps == 0\<close> (a trap on the
  usual machines); the end time is read only when the remainder is not zero.
\<close>

definition output_step ::
  "('e, 's, 'v) collaborators \<Rightarrow> param_map_t \<Rightarrow>
     ('e, 's) main_locals \<Rightarrow> error + ('e, 's) main_locals" where
  "output_step env param_map st =
     bindE (any_cast_string (param_map S_OBSERVE)) (\<lambda>observe.
     bindE (any_cast_size (param_map s_STEPS)) (\<lambda>steps.
       if steps = 0 then Inl Modulo_by_zero
       else
         let i = main_i_step st;
             st = st\<lparr>main_i_step := i + 1\<rparr>
         in
         bindE (if i mod steps = 0 then Inr True
                else bindE (any_cast_double (param_map s_TEND)) (\<lambda>tend.
                       Inr (dge (main_d_t st) tend)))
           (\<lambda>dump.
             if dump
             then
               let k = main_k st + 1;
                   zone = Libnucnet__relabelZone env (main_zone st) k
               in Inr (st\<lparr>main_k := k, main_zone := zone,
                          output_zones := output_zones st + 1,
                          files_written :=
                            (if B_OUTPUT_EVERY_TIME_DUMP then files_written st + 1
                             else files_written st)\<rparr>)
             else Inr st)))"

text \<open>Line 1062: limit the network.\<close>

definition limit_network ::
  "('e, 's, 'v) collaborators \<Rightarrow> ('e, 's) main_locals \<Rightarrow> error + ('e, 's) main_locals" where
  "limit_network env st =
     bindE (limit_evolution_network env D_LIM_CUTOFF (main_zone st)) (\<lambda>zone.
       Inr (st\<lparr>main_zone := zone\<rparr>))"

text \<open>
  Lines 1068 to 1074: the bound \<^verbatim>\<open>d_h\<close> from the relative change of each component,
  starting from \<^verbatim>\<open>1.e99\<close>. The loop runs over the indices of \<^verbatim>\<open>x\<close>.
\<close>

definition relative_change_step :: "dbl \<Rightarrow> state_type \<Rightarrow> state_type \<Rightarrow> nat \<Rightarrow> dbl \<Rightarrow> dbl" where
  "relative_change_step d_dt x xold i d_h =
     (let delta = dfabs (ddiv (dsub (x ! i) (xold ! i)) (x ! i)) in
      if dgt delta (Fin 0) \<and> dgt (dfabs (x ! i)) (x_lim ! i)
      then GSL_MIN d_h (ddiv (dmul D_X_REG_T d_dt) delta)
      else d_h)"

definition relative_change_bound :: "dbl \<Rightarrow> state_type \<Rightarrow> state_type \<Rightarrow> dbl" where
  "relative_change_bound d_dt x xold =
     fold (relative_change_step d_dt x xold) [0..<length x] (Fin (10 ^ 99))"

text \<open>
  Lines 1076 to 1089: the step size for the next step, from the last step size \<^verbatim>\<open>d_dt\<close>,
  the step size \<^verbatim>\<open>d_dt_net\<close> the engine has put in its place, the new and the old state,
  the time after the step and the end time.
\<close>

definition next_time_step ::
  "dbl \<Rightarrow> dbl \<Rightarrow> state_type \<Rightarrow> state_type \<Rightarrow> dbl \<Rightarrow> dbl \<Rightarrow> dbl" where
  "next_time_step d_dt d_dt_net x xold d_t tend =
     (let d_h = relative_change_bound d_dt x xold;
          d_dt = d_dt_net;
          d_dt = (if dgt d_dt d_h then d_h else d_dt)
      in if dgt (dadd d_t d_dt) tend then dsub tend d_t else d_dt)"

definition update_timestep ::
  "('e, 's, 'v) collaborators \<Rightarrow> param_map_t \<Rightarrow>
     ('e, 's) main_locals \<Rightarrow> error + ('e, 's) main_locals" where
  "update_timestep env param_map st =
     bindE (any_cast_double (param_map s_TEND)) (\<lambda>tend.
       Inr (st\<lparr>main_d_dt :=
         next_time_step (main_d_dt st)
           (Libnucnet__Zone__updateTimeStep env (main_zone st) (main_d_dt st)
              D_REG_T D_REG_Y D_Y_MIN_DT)
           (main_x st) (main_xold st) (main_d_t st) tend\<rparr>))"

definition loop_body ::
  "('e, 's, 'v) collaborators \<Rightarrow> ('e, 'v) zone_functions \<Rightarrow> param_map_t \<Rightarrow> 'v option \<Rightarrow>
     ('e, 's) main_locals \<Rightarrow> error + ('e, 's) main_locals" where
  "loop_body env funcs param_map p_view st =
     bindE (evolve_step env funcs p_view st) (\<lambda>st.
     bindE (update_properties env funcs param_map st) (\<lambda>st.
     bindE (output_step env param_map st) (\<lambda>st.
     bindE (limit_network env st) (\<lambda>st.
       update_timestep env param_map st))))"

subsection \<open>The loop and the end of the run\<close>

text \<open>
  \<^verbatim>\<open>while ( d_t < tend )\<close>, with a bound on the number of passes: \<open>None\<close> says that the
  bound was reached with the condition still true, \<open>Some (Inl e)\<close> that the run was
  ended by the failure \<open>e\<close>, \<open>Some (Inr st)\<close> that the loop was left with the locals
  \<open>st\<close>.
\<close>

fun stepping_loop ::
  "nat \<Rightarrow> ('e, 's, 'v) collaborators \<Rightarrow> ('e, 'v) zone_functions \<Rightarrow> param_map_t \<Rightarrow> 'v option \<Rightarrow>
     ('e, 's) main_locals \<Rightarrow> (error + ('e, 's) main_locals) option" where
  "stepping_loop n env funcs param_map p_view st =
     (case any_cast_double (param_map s_TEND) of
        Inl e \<Rightarrow> Some (Inl e)
      | Inr tend \<Rightarrow>
          if dlt (main_d_t st) tend
          then (case n of
                  0 \<Rightarrow> None
                | Suc m \<Rightarrow>
                    (case loop_body env funcs param_map p_view st of
                       Inl e \<Rightarrow> Some (Inl e)
                     | Inr st' \<Rightarrow> stepping_loop m env funcs param_map p_view st'))
          else Some (Inr st))"


section \<open>What the claims speak of\<close>

text \<open>
  The bounds the step-size controller is said to take the minimum of, for real numbers:
  the candidates of the components whose magnitude is above the floor and whose relative
  change is not zero, the engine's step size, and the distance to the end time.
\<close>

definition x_floor :: "real list" where
  "x_floor = [1 / 10 ^ 10, 1, 1 / 10 ^ 5]"

definition relative_change :: "real list \<Rightarrow> real list \<Rightarrow> nat \<Rightarrow> real" where
  "relative_change xs olds i = \<bar>xs ! i - olds ! i\<bar> / \<bar>xs ! i\<bar>"

definition candidates :: "real \<Rightarrow> real list \<Rightarrow> real list \<Rightarrow> real list" where
  "candidates dt xs olds =
     [15 / 100 * dt / relative_change xs olds i.
        i \<leftarrow> [0..<3], x_floor ! i < \<bar>xs ! i\<bar> \<and> relative_change xs olds i \<noteq> 0]"


text \<open>The same with the value \<^verbatim>\<open>1.e99\<close> the source starts its minimum from.\<close>

definition capped_time_step ::
  "real \<Rightarrow> real \<Rightarrow> real list \<Rightarrow> real list \<Rightarrow> real \<Rightarrow> real \<Rightarrow> real" where
  "capped_time_step dt dt_net xs olds t tend =
     Min (set (10 ^ 99 # dt_net # (tend - t) # candidates dt xs olds))"


section \<open>Stand-ins for the collaborators\<close>

text \<open>
  To run the driver on concrete inputs the collaborators need values. The stand-ins are
  the simplest of their kind: the integrator is the explicit Euler step, which calls the
  right-hand side once; the root finder returns its guess; the engine leaves the zone as
  it is and allows the step size to grow by the regulator (\<^verbatim>\<open>(1 + reg_t) dt\<close>, its bound
  when no abundance changes). The engine state and the integrator's history are empty.
\<close>

definition euler_do_step ::
  "(state_type \<Rightarrow> state_type \<Rightarrow> dbl \<Rightarrow> unit zone \<Rightarrow> error + (state_type \<times> unit zone)) \<Rightarrow>
     unit \<Rightarrow> state_type \<Rightarrow> dbl \<Rightarrow> dbl \<Rightarrow> unit zone \<Rightarrow> error + (state_type \<times> unit \<times> unit zone)" where
  "euler_do_step rhs s x t dt z =
     bindE (rhs x [Fin 0, Fin 0, Fin 0] t z) (\<lambda>(dxdt, z).
       Inr (map2 (\<lambda>xi di. dadd xi (dmul dt di)) x dxdt, s, z))"

definition trial_collaborators :: "(unit, unit, unit) collaborators" where
  "trial_collaborators =
     \<lparr> do_step = euler_do_step,
       getNetView = (\<lambda>z. Inr ((), z)),
       compute_1d_root = (\<lambda>view guess root_factor z. Inr (guess, z)),
       evolve_function = (\<lambda>view dt z. Inr z),
       compute_entropy = (\<lambda>z. Inr (Fin 1, z)),
       compute_entropy_generation_rate = (\<lambda>view z. Inr (Fin 0, z)),
       limit_evolution_network = (\<lambda>cutoff z. Inr z),
       Libnucnet__Zone__updateTimeStep = (\<lambda>z dt reg_t reg_y y_min. dmul (dadd (Fin 1) reg_t) dt),
       Libnucnet__relabelZone = (\<lambda>z k. z) \<rparr>"


text \<open>
  Functions to attach to the zone. The density is \<^verbatim>\<open>rho_function\<close>; the acceleration is
  the value of the \<^verbatim>\<open>return\<close> statement of \<^verbatim>\<open>acceleration\<close>; the temperature function
  answers half the zone's temperature; the evolution halves every abundance, and notes
  the temperature it ran at under a property of its own; no entropy is generated.
\<close>

definition trial_functions :: "param_map_t \<Rightarrow> (unit, unit) zone_functions" where
  "trial_functions param_map =
     \<lparr> rho_function_entry =
         (\<lambda>x z. bindE (rho_function param_map x) (\<lambda>rho. Inr (rho, z))),
       t9_function_entry =
         (\<lambda>view z. bindE (getProperty z [s_T9]) (\<lambda>t9. Inr (ddiv t9 (Fin 2), z))),
       evolution_function_entry =
         (\<lambda>view dt z. bindE (getProperty z [s_T9]) (\<lambda>t9.
            Inr ((updateProperty z [''t9 seen by evolve''] t9)
                   \<lparr> abundances := map (\<lambda>y. ddiv y (Fin 2)) (abundances z),
                     abundance_changes := map (\<lambda>y. dneg (ddiv y (Fin 2))) (abundances z) \<rparr>))),
       acceleration_function_entry =
         (\<lambda>x time z. bindE (any_cast_double (param_map s_TAU)) (\<lambda>tau.
            Inr (ddiv (x ! 1) (dmul (Fin 3) tau), z))),
       entropy_generation_function_entry = (\<lambda>view z. Inr (Fin 0, z)),
       observer_function_entry = None \<rparr>"

text \<open>
  The zone as \<^verbatim>\<open>main\<close> has it before the loop, with the default temperature and density
  and two species; the parameter map of a run to the end time \<open>tend\<close> with the other
  options at their defaults; and the locals at the head of the loop for a start time, a
  first step size and a start vector.
\<close>

definition trial_zone :: "unit zone" where
  "trial_zone =
     \<lparr> properties = [[s_T9] \<mapsto> Fin 10, [s_RHO] \<mapsto> Fin 100000000],
       abundances = [Fin (1 / 2), Fin (1 / 2)],
       abundance_changes = [Fin 0, Fin 0],
       engine = () \<rparr>"

definition trial_param_map :: "real \<Rightarrow> param_map_t" where
  "trial_param_map tend =
     default_param_map
       (s_TEND := Any_double (Fin tend),
        s_STEPS := Any_size 20,
        S_T9_GUESS := Any_string ''yes'',
        S_OBSERVE := Any_string ''no'')"

definition trial_locals :: "real \<Rightarrow> real \<Rightarrow> real list \<Rightarrow> (unit, unit) main_locals" where
  "trial_locals t dt xs =
     \<lparr> main_d_t = Fin t, main_d_dt = Fin dt, main_d_t9_old = Fin 10, main_d_dt9dt = Fin 0,
       main_x = map Fin xs, main_xold = [Fin 0, Fin 0, Fin 0],
       main_i_step = 0, main_k = 0, main_zone = trial_zone, main_stepper = (),
       output_zones = 0, files_written = 0 \<rparr>"

section \<open>Properties of the helper routines\<close>

lemmas key_defs =
  s_T9_0_def s_RHO_0_def s_TAU_def s_TIME_def s_DTIME_def s_TEND_def s_STEPS_def s_T9_def
  s_RHO_def s_ENTROPY_PER_NUCLEON_def S_DELTA_TRAJ_def S_RHO_1_def S_RHO_2_def
  S_ROOT_FACTOR_def S_X_def S_OBSERVE_def S_T9_GUESS_def

lemma bindE_Inr [simp]: "bindE (Inr v) f = f v"
  by (simp add: bindE_def)

lemma bindE_Inl [simp]: "bindE (Inl e) f = Inl e"
  by (simp add: bindE_def)

lemma bindE_eq_Inr: "(bindE m f = Inr y) = (\<exists>v. m = Inr v \<and> f v = Inr y)"
  by (cases m) simp_all




text \<open>
  Claim C3. The claim has \<^verbatim>\<open>initialize_state\<close> set \<^verbatim>\<open>x[0] = 1\<close> and derive a finite
  \<^verbatim>\<open>x[1]\<close> for every valid parameter set. The source does not get that far: for every
  parameter map and every vector, the second assignment evaluates
  \<^verbatim>\<open>boost::any_cast<double>( nnt::s_TAU )\<close>, a cast of the key string, which throws
  \<^verbatim>\<open>boost::bad_any_cast\<close>. The routine returns no state at all.
\<close>

theorem initialize_state_throws: "initialize_state param_map x = Inl Bad_any_cast"
  by (cases "param_map S_RHO_1") (simp_all add: initialize_state_def Let_def)

text \<open>The default parameter set and the zero vector the driver starts from.\<close>

theorem initialize_state_throws_witness:
  "initialize_state default_param_map [Fin 0, Fin 0, Fin 0] = Inl Bad_any_cast"
  using initialize_state_throws [of default_param_map "[Fin 0, Fin 0, Fin 0]"] by simp




text \<open>
  The sign of \<^verbatim>\<open>rho_0\<close> is not checked anywhere. With \<^verbatim>\<open>rho_0 = -8\<close> the density grows
  from \<^verbatim>\<open>-8\<close> at \<^verbatim>\<open>x[0] = 1\<close> to \<^verbatim>\<open>-1\<close> at \<^verbatim>\<open>x[0] = 2\<close>, which is why the monotonicity
  above is stated for a positive \<^verbatim>\<open>rho_0\<close>.
\<close>

lemma rho_function_negative_rho_0:
  "rho_function ((\<lambda>key. Any_empty)(s_RHO_0 := Any_double (Fin (- 8))))
      [Fin 1, Fin 0, Fin 0] = Inr (Fin (- 8)) \<and>
   rho_function ((\<lambda>key. Any_empty)(s_RHO_0 := Any_double (Fin (- 8))))
      [Fin 2, Fin 0, Fin 0] = Inr (Fin (- 1))"
  by (simp add: rho_function_def gsl_pow_3_def)

text \<open>
  Claim C8. The claim has \<^verbatim>\<open>acceleration\<close> return \<^verbatim>\<open>x[1] / (3 tau)\<close> and write a scratch
  value into \<^verbatim>\<open>x[2]\<close>. In the source the statement before the \<^verbatim>\<open>return\<close> evaluates
  \<^verbatim>\<open>boost::any_cast<double>( nnt::s_TAU )\<close>, a cast of the key string, under every
  reading of its parentheses: for every parameter map, zone, vector and time the routine
  throws \<^verbatim>\<open>boost::bad_any_cast\<close>, returns no value and writes nothing.
\<close>

theorem acceleration_throws: "acceleration param_map zone x time = Inl Bad_any_cast"
  by (cases "param_map S_RHO_1") (simp_all add: acceleration_def)

text \<open>The default parameter set, the state \<^verbatim>\<open>{1, 1, 1}\<close> and time zero.\<close>

theorem acceleration_throws_witness:
  "acceleration default_param_map () [Fin 1, Fin 1, Fin 1] (Fin 0) = Inl Bad_any_cast"
  using acceleration_throws [of default_param_map "()" "[Fin 1, Fin 1, Fin 1]" "Fin 0"]
  by simp

subsection \<open>What the driver makes of the helper routines as they stand\<close>

text \<open>
  The start of the run calls \<^verbatim>\<open>initialize_state\<close>, and the function table \<^verbatim>\<open>main\<close> builds
  holds \<^verbatim>\<open>acceleration\<close>: with the two routines as they stand the run ends in
  \<^verbatim>\<open>boost::bad_any_cast\<close> before the loop, and no call of the right-hand side would return.
  The properties of the right-hand side and of the loop below are therefore stated for
  any function table and any locals at the head of the loop.
\<close>

lemma initialize_system_aborts:
  "initialize_system env param_map zone stepper = Inl Bad_any_cast"
proof -
  have i: "initialize_state param_map [Fin 0, Fin 0, Fin 0] = Inl Bad_any_cast"
    by (cases "param_map S_RHO_1") (simp_all add: initialize_state_def Let_def)
  show ?thesis
    unfolding initialize_system_def Let_def i
    by (cases "param_map s_T9_0"; cases "param_map s_RHO_0"; cases "param_map s_DTIME";
        cases "param_map s_TIME")
      (simp_all add: getProperty_def updateProperty_def)
qed

lemma main_functions_acceleration_aborts:
  assumes "main_functions env param_map = Inr funcs"
  shows "acceleration_function_entry funcs x time zone = Inl Bad_any_cast"
proof -
  have a: "acceleration param_map zone x time = Inl Bad_any_cast"
    by (cases "param_map S_RHO_1") (simp_all add: acceleration_def)
  from assms show ?thesis
    unfolding main_functions_def
    by (auto simp add: bindE_eq_Inr a)
qed

lemma main_functions_rhs_aborts:
  assumes "main_functions env param_map = Inr funcs"
  shows "\<exists>e. entropy_generation_rhs funcs pView x dxdt d_t zone = Inl e"
proof (cases "entropy_generation_rhs funcs pView x dxdt d_t zone")
  case (Inl e)
  then show ?thesis by blast
next
  case (Inr r)
  then have False
    unfolding entropy_generation_rhs_def Let_def
    by (auto simp add: bindE_eq_Inr main_functions_acceleration_aborts [OF assms]
        split: prod.splits)
  then show ?thesis ..
qed

section \<open>Properties of the right-hand side\<close>

text \<open>
  A call that returns has read the temperature, and leaves a zone whose last three
  updates are the abundances, the abundance changes and the temperature, each set to the
  value read when the call began.
\<close>

lemma entropy_generation_rhs_restores:
  assumes "entropy_generation_rhs funcs pView x dxdt d_t zone = Inr (dxdt', zone')"
  shows "\<exists>z t9. properties zone [s_T9] = Some t9 \<and>
    zone' = updateProperty
      (Libnucnet__Zone__updateAbundanceChanges
         (Libnucnet__Zone__updateAbundances z (abundances zone)) (abundance_changes zone))
      [s_T9] t9"
  using assms
  unfolding entropy_generation_rhs_def Let_def
    Libnucnet__Zone__getAbundances_def Libnucnet__Zone__getAbundanceChanges_def
  by (auto simp add: bindE_def getProperty_def split: sum.splits option.splits prod.splits)

text \<open>
  Claim C1. Whenever a call of the right-hand side returns, the temperature property
  \<^verbatim>\<open>T9\<close> of the zone it leaves is the one the zone had when the call began (and the zone
  had one), whatever the functions attached to the zone did to it in between, the
  temperature function's answer that the call itself stores included. A call that fails
  ends the run. The driver sets the temperature after the step, in \<open>update_properties\<close>.
\<close>

theorem entropy_generation_rhs_keeps_t9:
  assumes "entropy_generation_rhs funcs pView x dxdt d_t zone = Inr (dxdt', zone')"
  shows "getProperty zone' [s_T9] = getProperty zone [s_T9] \<and>
    (\<exists>t9. getProperty zone [s_T9] = Inr t9)"
  using entropy_generation_rhs_restores [OF assms]
  by (auto simp add: getProperty_def updateProperty_def)

text \<open>
  Claim C10. Whenever a call of the right-hand side returns, the abundances and the
  abundance changes of the zone it leaves are those the zone had when the call began:
  what the evolution function did to them inside the call is overwritten by the copies
  taken at the start. The driver's own call of the evolution function, after the
  step, is in \<open>update_properties\<close>.
\<close>

theorem entropy_generation_rhs_keeps_abundances:
  assumes "entropy_generation_rhs funcs pView x dxdt d_t zone = Inr (dxdt', zone')"
  shows "abundances zone' = abundances zone \<and> abundance_changes zone' = abundance_changes zone"
  using entropy_generation_rhs_restores [OF assms]
  by (auto simp add: updateProperty_def Libnucnet__Zone__updateAbundances_def
      Libnucnet__Zone__updateAbundanceChanges_def)


section \<open>Properties of the step-size controller\<close>

text \<open>
  One pass of the loop over the components, for finite values and a floor that is not
  negative. A component that is zero is passed over in the source because its magnitude
  is not above the floor, whatever the division by it has given.
\<close>

lemma relative_change_step_fin:
  assumes "0 \<le> fl"
  shows "(let delta = dfabs (ddiv (dsub (Fin a) (Fin u)) (Fin a)) in
      if dgt delta (Fin 0) \<and> dgt (dfabs (Fin a)) (Fin fl)
      then GSL_MIN (Fin h) (ddiv (dmul D_X_REG_T (Fin dt)) delta)
      else Fin h) =
    Fin (if fl < \<bar>a\<bar> \<and> \<bar>a - u\<bar> / \<bar>a\<bar> \<noteq> 0
         then min (15 / 100 * dt / (\<bar>a - u\<bar> / \<bar>a\<bar>)) h else h)"
proof (cases "a = 0")
  case True
  then show ?thesis
    using assms by (simp add: Let_def dgt_def dsub_def)
next
  case False
  then show ?thesis
    by (auto simp add: Let_def dgt_def dsub_def GSL_MIN_def D_X_REG_T_def min_def abs_divide)
qed

lemma upt_3: "[0..<3] = [0, Suc 0, Suc (Suc 0)]"
  by (simp add: upt_rec)

lemma x_lim_nth:
  assumes "i < 3"
  shows "x_lim ! i = Fin (x_floor ! i) \<and> 0 \<le> x_floor ! i"
proof -
  from assms have "i = 0 \<or> i = Suc 0 \<or> i = Suc (Suc 0)"
    by arith
  then show ?thesis
    by (auto simp add: x_lim_def x_floor_def)
qed

lemma relative_change_step_nth:
  assumes "i < 3" and "length xs = 3" and "length olds = 3"
  shows "relative_change_step (Fin dt) (map Fin xs) (map Fin olds) i (Fin h) =
    Fin (if x_floor ! i < \<bar>xs ! i\<bar> \<and> relative_change xs olds i \<noteq> 0
         then min (15 / 100 * dt / relative_change xs olds i) h else h)"
proof -
  have nth: "map Fin xs ! i = Fin (xs ! i)" "map Fin olds ! i = Fin (olds ! i)"
    using assms by simp_all
  show ?thesis
    unfolding relative_change_step_def nth relative_change_def
    using x_lim_nth [OF assms(1)]
      relative_change_step_fin [of "x_floor ! i" "xs ! i" "olds ! i" h dt]
    by (simp only:)
qed

lemma relative_change_bound_fin:
  assumes "length xs = 3" and "length olds = 3"
  shows "relative_change_bound (Fin dt) (map Fin xs) (map Fin olds) =
     Fin (fold min (candidates dt xs olds) (10 ^ 99))"
proof -
  define big :: real where "big = 10 ^ 99"
  define c where "c i = 15 / 100 * dt / relative_change xs olds i" for i
  define P where "P i \<longleftrightarrow> x_floor ! i < \<bar>xs ! i\<bar> \<and> relative_change xs olds i \<noteq> 0" for i
  have step: "relative_change_step (Fin dt) (map Fin xs) (map Fin olds) i (Fin h) =
      Fin (if P i then min (c i) h else h)" if "i < 3" for i h
    unfolding P_def c_def using relative_change_step_nth [OF that assms] .
  have cands: "candidates dt xs olds =
      concat (map (\<lambda>i. if P i then [c i] else []) [0, Suc 0, Suc (Suc 0)])"
    unfolding candidates_def upt_3 P_def c_def by simp
  have code: "relative_change_bound (Fin dt) (map Fin xs) (map Fin olds) =
      relative_change_step (Fin dt) (map Fin xs) (map Fin olds) (Suc (Suc 0))
        (relative_change_step (Fin dt) (map Fin xs) (map Fin olds) (Suc 0)
          (relative_change_step (Fin dt) (map Fin xs) (map Fin olds) 0 (Fin big)))"
    unfolding relative_change_bound_def big_def using assms
    by (simp add: upt_3 del: upt_rec_numeral)
  have "relative_change_bound (Fin dt) (map Fin xs) (map Fin olds) =
      Fin (fold min (candidates dt xs olds) big)"
    unfolding code cands
    by (cases "P 0"; cases "P (Suc 0)"; cases "P (Suc (Suc 0))") (simp_all add: step)
  then show ?thesis
    unfolding big_def .
qed

lemma fold_min_min: "fold min xs (min a (b::real)) = min a (fold min xs b)"
proof (induction xs arbitrary: b)
  case Nil
  show ?case by simp
next
  case (Cons y ys)
  have "min y (min a b) = min a (min y b)"
    by (rule min.left_commute)
  then show ?case
    using Cons.IH [of "min y b"] by simp
qed

lemma next_time_step_fin:
  assumes "length xs = 3" and "length olds = 3"
  shows "next_time_step (Fin dt) (Fin dt_net) (map Fin xs) (map Fin olds) (Fin t) (Fin tend) =
     Fin (capped_time_step dt dt_net xs olds t tend)"
proof -
  define h where "h = fold min (candidates dt xs olds) (10 ^ 99)"
  have spec: "capped_time_step dt dt_net xs olds t tend = min (tend - t) (min dt_net h)"
    unfolding capped_time_step_def Min.set_eq_fold h_def
    by (simp add: fold_min_min)
  have code: "next_time_step (Fin dt) (Fin dt_net) (map Fin xs) (map Fin olds) (Fin t) (Fin tend) =
      Fin (if tend < t + (if h < dt_net then h else dt_net) then tend - t
           else (if h < dt_net then h else dt_net))"
    unfolding next_time_step_def relative_change_bound_fin [OF assms] h_def [symmetric]
    by (simp add: Let_def dgt_def dsub_def)
  show ?thesis
    unfolding code spec by (auto simp add: min_def)
qed



lemma trial_param_map_values:
  "trial_param_map tend s_TEND = Any_double (Fin tend)"
  "trial_param_map tend s_STEPS = Any_size 20"
  "trial_param_map tend S_T9_GUESS = Any_string ''yes''"
  "trial_param_map tend S_OBSERVE = Any_string ''no''"
  "trial_param_map tend s_RHO_0 = Any_double (Fin 100000000)"
  "trial_param_map tend s_TAU = Any_double (Fin (1 / 10))"
  "trial_param_map tend S_ROOT_FACTOR = Any_double (Fin (1001 / 1000))"
  by (simp_all add: trial_param_map_def default_param_map_def default_vmap_def key_defs)



section \<open>Properties of one pass of the loop\<close>

lemma evolve_step_frame:
  assumes "evolve_step env funcs p_view st = Inr st'"
  shows "main_d_t st' = main_d_t st \<and> main_d_dt st' = main_d_dt st \<and>
    main_xold st' = main_x st \<and> main_i_step st' = main_i_step st \<and>
    files_written st' = files_written st \<and>
    (\<exists>view z s' z'.
       do_step env (entropy_generation_rhs funcs view) (main_stepper st) (main_x st)
         (main_d_t st) (main_d_dt st) z = Inr (main_x st', s', z'))"
  using assms unfolding evolve_step_def Let_def
  by (auto simp add: bindE_eq_Inr split: prod.splits) blast

lemma update_properties_frame:
  assumes "update_properties env funcs param_map st = Inr st'"
  shows "main_d_t st' = dadd (main_d_t st) (main_d_dt st) \<and> main_d_dt st' = main_d_dt st \<and>
    main_x st' = main_x st \<and> main_xold st' = main_xold st \<and>
    main_i_step st' = main_i_step st \<and> files_written st' = files_written st"
  using assms unfolding update_properties_def Let_def
  by (auto simp add: bindE_eq_Inr split: prod.splits)

lemma output_step_frame:
  assumes "output_step env param_map st = Inr st'"
  shows "main_d_t st' = main_d_t st \<and> main_d_dt st' = main_d_dt st \<and>
    main_x st' = main_x st \<and> main_xold st' = main_xold st \<and>
    main_i_step st' = main_i_step st + 1 \<and> files_written st' = files_written st"
  using assms unfolding output_step_def Let_def B_OUTPUT_EVERY_TIME_DUMP_def
  by (auto simp add: bindE_eq_Inr split: if_splits)

lemma limit_network_frame:
  assumes "limit_network env st = Inr st'"
  shows "main_d_t st' = main_d_t st \<and> main_d_dt st' = main_d_dt st \<and>
    main_x st' = main_x st \<and> main_xold st' = main_xold st \<and>
    main_i_step st' = main_i_step st \<and> files_written st' = files_written st"
  using assms unfolding limit_network_def
  by (auto simp add: bindE_eq_Inr)

lemma update_timestep_frame:
  assumes "update_timestep env param_map st = Inr st'"
  shows "main_d_t st' = main_d_t st \<and>
    main_x st' = main_x st \<and> main_xold st' = main_xold st \<and>
    main_i_step st' = main_i_step st \<and> files_written st' = files_written st \<and>
    (\<exists>tend. param_map s_TEND = Any_double tend \<and>
       main_d_dt st' = next_time_step (main_d_dt st)
         (Libnucnet__Zone__updateTimeStep env (main_zone st) (main_d_dt st)
            D_REG_T D_REG_Y D_Y_MIN_DT)
         (main_x st) (main_xold st) (main_d_t st) tend)"
proof -
  obtain tend where t: "param_map s_TEND = Any_double tend"
    using assms unfolding update_timestep_def
    by (cases "param_map s_TEND") simp_all
  show ?thesis
    using assms t unfolding update_timestep_def by auto
qed

lemma loop_body_frame:
  assumes "loop_body env funcs param_map p_view st = Inr st'"
  shows "main_d_t st' = dadd (main_d_t st) (main_d_dt st) \<and>
    main_xold st' = main_x st \<and>
    main_i_step st' = main_i_step st + 1 \<and> files_written st' = files_written st \<and>
    (\<exists>view z s' z'.
       do_step env (entropy_generation_rhs funcs view) (main_stepper st) (main_x st)
         (main_d_t st) (main_d_dt st) z = Inr (main_x st', s', z')) \<and>
    (\<exists>tend z. param_map s_TEND = Any_double tend \<and>
       main_d_dt st' = next_time_step (main_d_dt st)
         (Libnucnet__Zone__updateTimeStep env z (main_d_dt st) D_REG_T D_REG_Y D_Y_MIN_DT)
         (main_x st') (main_x st) (dadd (main_d_t st) (main_d_dt st)) tend)"
proof -
  from assms obtain s1 s2 s3 s4 where
    p1: "evolve_step env funcs p_view st = Inr s1" and
    p2: "update_properties env funcs param_map s1 = Inr s2" and
    p3: "output_step env param_map s2 = Inr s3" and
    p4: "limit_network env s3 = Inr s4" and
    p5: "update_timestep env param_map s4 = Inr st'"
    unfolding loop_body_def by (auto simp add: bindE_eq_Inr)
  note f1 = evolve_step_frame [OF p1]
    and f2 = update_properties_frame [OF p2]
    and f3 = output_step_frame [OF p3]
    and f4 = limit_network_frame [OF p4]
    and f5 = update_timestep_frame [OF p5]
  from f5 obtain tend where
    t: "param_map s_TEND = Any_double tend" and
    d: "main_d_dt st' = next_time_step (main_d_dt s4)
         (Libnucnet__Zone__updateTimeStep env (main_zone s4) (main_d_dt s4)
            D_REG_T D_REG_Y D_Y_MIN_DT)
         (main_x s4) (main_xold s4) (main_d_t s4) tend"
    by blast
  have eqs: "main_d_dt s4 = main_d_dt st" "main_x s4 = main_x st'"
    "main_xold s4 = main_x st" "main_d_t s4 = dadd (main_d_t st) (main_d_dt st)"
    using f1 f2 f3 f4 f5 by simp_all
  have step: "\<exists>view z s' z'.
       do_step env (entropy_generation_rhs funcs view) (main_stepper st) (main_x st)
         (main_d_t st) (main_d_dt st) z = Inr (main_x st', s', z')"
    using f1 f2 f3 f4 f5 by simp
  have "\<exists>tend z. param_map s_TEND = Any_double tend \<and>
       main_d_dt st' = next_time_step (main_d_dt st)
         (Libnucnet__Zone__updateTimeStep env z (main_d_dt st) D_REG_T D_REG_Y D_Y_MIN_DT)
         (main_x st') (main_x st) (dadd (main_d_t st) (main_d_dt st)) tend"
    using t d unfolding eqs by blast
  then show ?thesis
    using f1 f2 f3 f4 f5 step by simp
qed


section \<open>Properties of the loop\<close>

declare stepping_loop.simps [simp del]

lemma stepping_loop_exit:
  assumes "param_map s_TEND = Any_double tend" and "\<not> dlt (main_d_t st) tend"
  shows "stepping_loop n env funcs param_map p_view st = Some (Inr st)"
  using assms by (simp add: stepping_loop.simps [of n])

lemma stepping_loop_step:
  assumes "param_map s_TEND = Any_double tend" and "dlt (main_d_t st) tend"
    and "loop_body env funcs param_map p_view st = Inr st'"
  shows "stepping_loop (Suc n) env funcs param_map p_view st =
    stepping_loop n env funcs param_map p_view st'"
  using assms by (simp add: stepping_loop.simps [of "Suc n"])










text \<open>
  Claim C4. The claim has a first step size larger than \<^verbatim>\<open>t_end - t\<close> clamped before the
  first step. In the source the clamp stands at the end of the loop body and acts on the
  step size of the next pass only: when the first pass returns, it has called the
  integrator with the step size as configured, the time is \<^verbatim>\<open>t + dt\<close>, beyond the end
  time, and the loop is left after this one step.
\<close>

theorem first_step_is_not_clamped:
  assumes "param_map s_TEND = Any_double (Fin tend)"
    and "main_d_t st = Fin t" and "main_d_dt st = Fin dt"
    and "t < tend" and "tend - t < dt"
    and "loop_body env funcs param_map p_view st = Inr st'"
  shows "stepping_loop (Suc n) env funcs param_map p_view st = Some (Inr st') \<and>
    main_d_t st' = Fin (t + dt) \<and> tend < t + dt \<and>
    main_i_step st' = main_i_step st + 1 \<and>
    (\<exists>view z s' z'.
       do_step env (entropy_generation_rhs funcs view) (main_stepper st) (main_x st)
         (Fin t) (Fin dt) z = Inr (main_x st', s', z'))"
proof -
  note f = loop_body_frame [OF assms(6)]
  have t1: "main_d_t st' = Fin (t + dt)"
    using f assms by simp
  have "stepping_loop (Suc n) env funcs param_map p_view st =
      stepping_loop n env funcs param_map p_view st'"
    using assms by (intro stepping_loop_step [of param_map "Fin tend"]) simp_all
  also have "\<dots> = Some (Inr st')"
    using assms t1 by (intro stepping_loop_exit [of param_map "Fin tend"]) simp_all
  finally show ?thesis
    using f t1 assms by simp
qed

section \<open>The driver with the stand-ins\<close>


lemma trial_rhs_result:
  assumes "entropy_generation_rhs (trial_functions (trial_param_map tend)) view [a, b, c]
      [Fin 0, Fin 0, Fin 0] t z = Inr (d, z')"
  shows "d = [b, ddiv b (Fin (3 / 10)), Fin 0]"
  using assms unfolding entropy_generation_rhs_def Let_def trial_functions_def
  by (auto simp add: bindE_eq_Inr trial_param_map_values split: prod.splits)

lemma t9_key_distinct:
  "s_T9 \<noteq> s_DTIME" "s_T9 \<noteq> s_TIME" "s_T9 \<noteq> s_RHO" "s_T9 \<noteq> s_ENTROPY_PER_NUCLEON"
  "s_T9 \<noteq> ''t9 seen by evolve''" "s_TIME \<noteq> s_DTIME" "s_TIME \<noteq> s_RHO"
  "s_TIME \<noteq> s_ENTROPY_PER_NUCLEON" "s_TIME \<noteq> s_T9"
  "s_DTIME \<noteq> s_T9" "s_RHO \<noteq> s_T9" "s_ENTROPY_PER_NUCLEON \<noteq> s_T9"
  "''t9 seen by evolve'' \<noteq> s_T9"
  by (simp_all add: key_defs)

lemma trial_rhs_succeeds:
  assumes "properties z [s_T9] = Some v" and "properties z [s_TIME] = Some tm"
  shows "\<exists>d z'. entropy_generation_rhs (trial_functions (trial_param_map tend)) view [a, b, c]
      [Fin 0, Fin 0, Fin 0] t z = Inr (d, z') \<and> properties z' [s_T9] = Some v"
  using assms unfolding entropy_generation_rhs_def Let_def trial_functions_def
  by (simp add: trial_param_map_values getProperty_def updateProperty_def rho_function_def
      Libnucnet__Zone__updateAbundances_def Libnucnet__Zone__updateAbundanceChanges_def
      t9_key_distinct)

lemma trial_evolve_step_succeeds:
  assumes "properties (main_zone st) [s_T9] = Some v" and "main_x st = [a, b, c]"
  shows "\<exists>st'. evolve_step (trial_collaborators\<lparr>Libnucnet__Zone__updateTimeStep := f\<rparr>)
      (trial_functions (trial_param_map tend)) None st = Inr st' \<and>
    properties (main_zone st') [s_T9] = Some v"
proof -
  let ?z = "updateProperty (main_zone st) [s_TIME] (main_d_t st)"
  have "properties ?z [s_T9] = Some v" and "properties ?z [s_TIME] = Some (main_d_t st)"
    using assms(1) by (simp_all add: updateProperty_def t9_key_distinct)
  from trial_rhs_succeeds [OF this, of tend "()" a b c "main_d_t st"] obtain d z' where
    "entropy_generation_rhs (trial_functions (trial_param_map tend)) () [a, b, c]
      [Fin 0, Fin 0, Fin 0] (main_d_t st) ?z = Inr (d, z')"
    and "properties z' [s_T9] = Some v"
    by blast
  then show ?thesis
    using assms(2)
    by (simp add: evolve_step_def trial_collaborators_def euler_do_step_def)
qed

lemma trial_update_properties_succeeds:
  "\<exists>st' v. update_properties (trial_collaborators\<lparr>Libnucnet__Zone__updateTimeStep := f\<rparr>)
      (trial_functions (trial_param_map tend)) (trial_param_map tend) st = Inr st' \<and>
    properties (main_zone st') [s_T9] = Some v"
  unfolding update_properties_def Let_def trial_functions_def
  by (simp add: trial_param_map_values trial_collaborators_def rho_function_def t9_function_def
      getProperty_def updateProperty_def t9_key_distinct)

lemma trial_output_step_succeeds:
  "\<exists>st'. output_step (trial_collaborators\<lparr>Libnucnet__Zone__updateTimeStep := f\<rparr>)
      (trial_param_map tend) st = Inr st' \<and> main_zone st' = main_zone st"
  unfolding output_step_def Let_def
  by (simp add: trial_param_map_values trial_collaborators_def)

lemma trial_limit_network_succeeds:
  "\<exists>st'. limit_network (trial_collaborators\<lparr>Libnucnet__Zone__updateTimeStep := f\<rparr>) st =
      Inr st' \<and> main_zone st' = main_zone st"
  unfolding limit_network_def
  by (simp add: trial_collaborators_def)

lemma trial_update_timestep_succeeds:
  "\<exists>st'. update_timestep (trial_collaborators\<lparr>Libnucnet__Zone__updateTimeStep := f\<rparr>)
      (trial_param_map tend) st = Inr st' \<and> main_zone st' = main_zone st"
  unfolding update_timestep_def
  by (simp add: trial_param_map_values)

lemma trial_loop_body_succeeds:
  assumes "properties (main_zone st) [s_T9] = Some v" and "main_x st = [a, b, c]"
  shows "\<exists>st' v'. loop_body (trial_collaborators\<lparr>Libnucnet__Zone__updateTimeStep := f\<rparr>)
      (trial_functions (trial_param_map tend)) (trial_param_map tend) None st = Inr st' \<and>
    properties (main_zone st') [s_T9] = Some v'"
proof -
  let ?env = "trial_collaborators\<lparr>Libnucnet__Zone__updateTimeStep := f\<rparr>"
  from trial_evolve_step_succeeds [OF assms, of f tend] obtain s1 where
    p1: "evolve_step ?env (trial_functions (trial_param_map tend)) None st = Inr s1"
    by blast
  from trial_update_properties_succeeds [of f tend s1] obtain s2 v' where
    p2: "update_properties ?env (trial_functions (trial_param_map tend)) (trial_param_map tend) s1 =
      Inr s2" and v: "properties (main_zone s2) [s_T9] = Some v'"
    by blast
  from trial_output_step_succeeds [of f tend s2] obtain s3 where
    p3: "output_step ?env (trial_param_map tend) s2 = Inr s3" and z3: "main_zone s3 = main_zone s2"
    by blast
  from trial_limit_network_succeeds [of f s3] obtain s4 where
    p4: "limit_network ?env s3 = Inr s4" and z4: "main_zone s4 = main_zone s3"
    by blast
  from trial_update_timestep_succeeds [of f tend s4] obtain s5 where
    p5: "update_timestep ?env (trial_param_map tend) s4 = Inr s5" and
    z5: "main_zone s5 = main_zone s4"
    by blast
  have "loop_body ?env (trial_functions (trial_param_map tend)) (trial_param_map tend) None st =
      Inr s5"
    unfolding loop_body_def by (simp add: p1 p2 p3 p4 p5)
  moreover have "properties (main_zone s5) [s_T9] = Some v'"
    using v z3 z4 z5 by simp
  ultimately show ?thesis by blast
qed

lemma trial_loop_body_state:
  assumes "loop_body (trial_collaborators\<lparr>Libnucnet__Zone__updateTimeStep := f\<rparr>)
      (trial_functions (trial_param_map tend)) (trial_param_map tend) None st = Inr st'"
    and "main_x st = [a, b, c]"
  shows "main_x st' =
    [dadd a (dmul (main_d_dt st) b),
     dadd b (dmul (main_d_dt st) (ddiv b (Fin (3 / 10)))),
     dadd c (dmul (main_d_dt st) (Fin 0))]"
proof -
  from loop_body_frame [OF assms(1)] obtain view z s' z' where
    "do_step (trial_collaborators\<lparr>Libnucnet__Zone__updateTimeStep := f\<rparr>)
       (entropy_generation_rhs (trial_functions (trial_param_map tend)) view) (main_stepper st)
       (main_x st) (main_d_t st) (main_d_dt st) z = Inr (main_x st', s', z')"
    by blast
  then obtain d zr where
    r: "entropy_generation_rhs (trial_functions (trial_param_map tend)) view [a, b, c]
      [Fin 0, Fin 0, Fin 0] (main_d_t st) z = Inr (d, zr)" and
    x: "main_x st' = map2 (\<lambda>xi di. dadd xi (dmul (main_d_dt st) di)) [a, b, c] d"
    using assms(2)
    by (auto simp add: trial_collaborators_def euler_do_step_def bindE_eq_Inr)
  show ?thesis
    unfolding x trial_rhs_result [OF r] by simp
qed


lemma trial_pass:
  assumes "properties (main_zone st) [s_T9] = Some v"
    and "main_x st = map Fin [a, b, c]"
    and "main_d_t st = Fin t" and "main_d_dt st = Fin dt"
    and "\<And>z. f z (Fin dt) D_REG_T D_REG_Y D_Y_MIN_DT = Fin dt_net"
  shows "\<exists>st' v'. loop_body (trial_collaborators\<lparr>Libnucnet__Zone__updateTimeStep := f\<rparr>)
      (trial_functions (trial_param_map tend)) (trial_param_map tend) None st = Inr st' \<and>
    properties (main_zone st') [s_T9] = Some v' \<and>
    main_x st' = map Fin [a + dt * b, b + dt * (b / (3 / 10)), c] \<and>
    main_d_t st' = Fin (t + dt) \<and>
    main_d_dt st' = Fin (capped_time_step dt dt_net
      [a + dt * b, b + dt * (b / (3 / 10)), c] [a, b, c] (t + dt) tend) \<and>
    files_written st' = files_written st \<and> main_i_step st' = main_i_step st + 1"
proof -
  let ?env = "trial_collaborators\<lparr>Libnucnet__Zone__updateTimeStep := f\<rparr>"
  have x0: "main_x st = [Fin a, Fin b, Fin c]"
    using assms(2) by simp
  from trial_loop_body_succeeds [OF assms(1) x0, of f tend] obtain st' v' where
    b: "loop_body ?env (trial_functions (trial_param_map tend)) (trial_param_map tend) None st =
      Inr st'" and v: "properties (main_zone st') [s_T9] = Some v'"
    by blast
  have x1: "main_x st' = map Fin [a + dt * b, b + dt * (b / (3 / 10)), c]"
    using trial_loop_body_state [OF b x0] assms(4) by simp
  note fr = loop_body_frame [OF b]
  from fr obtain tend' z where
    "trial_param_map tend s_TEND = Any_double tend'" and
    "main_d_dt st' = next_time_step (main_d_dt st)
       (Libnucnet__Zone__updateTimeStep ?env z (main_d_dt st) D_REG_T D_REG_Y D_Y_MIN_DT)
       (main_x st') (main_x st) (dadd (main_d_t st) (main_d_dt st)) tend'"
    by blast
  then have "main_d_dt st' = next_time_step (Fin dt) (Fin dt_net)
       (map Fin [a + dt * b, b + dt * (b / (3 / 10)), c]) (map Fin [a, b, c])
       (Fin (t + dt)) (Fin tend)"
    using assms(2-5) x1 by (simp add: trial_param_map_values)
  then have d: "main_d_dt st' = Fin (capped_time_step dt dt_net
      [a + dt * b, b + dt * (b / (3 / 10)), c] [a, b, c] (t + dt) tend)"
    using next_time_step_fin [of "[a + dt * b, b + dt * (b / (3 / 10)), c]" "[a, b, c]"
        dt dt_net "t + dt" tend]
    by simp
  show ?thesis
    using b v x1 d fr assms(3,4) by auto
qed

lemma trial_collaborators_eq:
  "trial_collaborators\<lparr>Libnucnet__Zone__updateTimeStep :=
      (\<lambda>z dt reg_t reg_y y_min. dmul (dadd (Fin 1) reg_t) dt)\<rparr> = trial_collaborators"
  by (simp add: trial_collaborators_def)

lemma trial_pass_growing:
  assumes "properties (main_zone st) [s_T9] = Some v"
    and "main_x st = map Fin [a, b, c]"
    and "main_d_t st = Fin t" and "main_d_dt st = Fin dt"
  shows "\<exists>st' v'. loop_body trial_collaborators
      (trial_functions (trial_param_map tend)) (trial_param_map tend) None st = Inr st' \<and>
    properties (main_zone st') [s_T9] = Some v' \<and>
    main_x st' = map Fin [a + dt * b, b + dt * (b / (3 / 10)), c] \<and>
    main_d_t st' = Fin (t + dt) \<and>
    main_d_dt st' = Fin (capped_time_step dt (115 / 100 * dt)
      [a + dt * b, b + dt * (b / (3 / 10)), c] [a, b, c] (t + dt) tend) \<and>
    files_written st' = files_written st \<and> main_i_step st' = main_i_step st + 1"
proof -
  have "(\<lambda>z dt reg_t reg_y y_min. dmul (dadd (Fin 1) reg_t) dt) z (Fin dt)
      D_REG_T D_REG_Y D_Y_MIN_DT = Fin (115 / 100 * dt)" for z :: "unit zone"
    by (simp add: D_REG_T_def)
  from trial_pass [OF assms, of "\<lambda>z dt reg_t reg_y y_min. dmul (dadd (Fin 1) reg_t) dt"
      "115 / 100 * dt" tend, OF this]
  show ?thesis
    unfolding trial_collaborators_eq .
qed


lemma trial_locals_fields:
  "properties (main_zone (trial_locals t dt xs)) [s_T9] = Some (Fin 10)"
  "main_x (trial_locals t dt xs) = map Fin xs"
  "main_d_t (trial_locals t dt xs) = Fin t"
  "main_d_dt (trial_locals t dt xs) = Fin dt"
  "files_written (trial_locals t dt xs) = 0"
  "main_i_step (trial_locals t dt xs) = 0"
  "main_stepper (trial_locals t dt xs) = ()"
  by (simp_all add: trial_locals_def trial_zone_def t9_key_distinct)

text \<open>
  A call of the right-hand side on the zone of the stand-ins at time 1, with the zone's
  time at 0: the evolution function ran at the temperature 5 that the temperature function
  had answered, and the zone is left at the temperature 10 it had.
\<close>

lemma trial_rhs_run:
  "\<exists>dxdt' zone'.
     entropy_generation_rhs (trial_functions default_param_map) () [Fin 1, Fin 1, Fin 1]
       [Fin 0, Fin 0, Fin 0] (Fin 1) (updateProperty trial_zone [s_TIME] (Fin 0)) =
       Inr (dxdt', zone') \<and>
     getProperty zone' [''t9 seen by evolve''] = Inr (Fin 5)"
  unfolding entropy_generation_rhs_def Let_def trial_functions_def
  by (simp add: getProperty_def updateProperty_def rho_function_def trial_zone_def
      Libnucnet__Zone__updateAbundances_def Libnucnet__Zone__updateAbundanceChanges_def
      t9_key_distinct default_param_map_def default_vmap_def key_defs)

theorem entropy_generation_rhs_keeps_t9_witness:
  "\<exists>dxdt' zone'.
     entropy_generation_rhs (trial_functions default_param_map) () [Fin 1, Fin 1, Fin 1]
       [Fin 0, Fin 0, Fin 0] (Fin 1) (updateProperty trial_zone [s_TIME] (Fin 0)) =
       Inr (dxdt', zone') \<and>
     getProperty zone' [s_T9] = Inr (Fin 10) \<and>
     getProperty zone' [''t9 seen by evolve''] = Inr (Fin 5)"
proof -
  from trial_rhs_run obtain dxdt' zone' where
    r: "entropy_generation_rhs (trial_functions default_param_map) () [Fin 1, Fin 1, Fin 1]
       [Fin 0, Fin 0, Fin 0] (Fin 1) (updateProperty trial_zone [s_TIME] (Fin 0)) =
       Inr (dxdt', zone')" and
    s: "getProperty zone' [''t9 seen by evolve''] = Inr (Fin 5)"
    by blast
  have "getProperty (updateProperty trial_zone [s_TIME] (Fin 0)) [s_T9] = Inr (Fin 10)"
    by (simp add: getProperty_def updateProperty_def trial_zone_def t9_key_distinct)
  with entropy_generation_rhs_keeps_t9 [OF r] have "getProperty zone' [s_T9] = Inr (Fin 10)"
    by simp
  with r s show ?thesis by blast
qed

text \<open>
  The same call: the evolution function halved the abundances, and the zone is left
  with the abundances one half and one half and the changes zero it had.
\<close>

theorem entropy_generation_rhs_keeps_abundances_witness:
  "\<exists>dxdt' zone'.
     entropy_generation_rhs (trial_functions default_param_map) () [Fin 1, Fin 1, Fin 1]
       [Fin 0, Fin 0, Fin 0] (Fin 1) (updateProperty trial_zone [s_TIME] (Fin 0)) =
       Inr (dxdt', zone') \<and>
     abundances zone' = [Fin (1 / 2), Fin (1 / 2)] \<and>
     abundance_changes zone' = [Fin 0, Fin 0] \<and>
     getProperty zone' [''t9 seen by evolve''] = Inr (Fin 5)"
proof -
  from trial_rhs_run obtain dxdt' zone' where
    r: "entropy_generation_rhs (trial_functions default_param_map) () [Fin 1, Fin 1, Fin 1]
       [Fin 0, Fin 0, Fin 0] (Fin 1) (updateProperty trial_zone [s_TIME] (Fin 0)) =
       Inr (dxdt', zone')" and
    s: "getProperty zone' [''t9 seen by evolve''] = Inr (Fin 5)"
    by blast
  from entropy_generation_rhs_keeps_abundances [OF r] have
    "abundances zone' = [Fin (1 / 2), Fin (1 / 2)]" and "abundance_changes zone' = [Fin 0, Fin 0]"
    by (simp_all add: updateProperty_def trial_zone_def)
  with r s show ?thesis by blast
qed

text \<open>
  The first step size 100 with the start time 0 and the end time 10: the loop is left
  after one pass, at the time 100.
\<close>

theorem first_step_is_not_clamped_witness:
  "\<exists>st'. stepping_loop 1 trial_collaborators (trial_functions (trial_param_map 10))
      (trial_param_map 10) None (trial_locals 0 100 [1, 0, 1]) = Some (Inr st') \<and>
    main_d_t st' = Fin 100 \<and> main_i_step st' = 1"
proof -
  let ?st = "trial_locals 0 100 [1, 0, 1]"
  from trial_pass_growing [of ?st "Fin 10" 1 0 1 0 100 10] obtain st' where
    b: "loop_body trial_collaborators (trial_functions (trial_param_map 10))
      (trial_param_map 10) None ?st = Inr st'"
    by (auto simp add: trial_locals_fields)
  from first_step_is_not_clamped [of "trial_param_map 10" 10 ?st 0 100 trial_collaborators
      "trial_functions (trial_param_map 10)" None st' 0] b
  show ?thesis
    by (auto simp add: trial_locals_fields trial_param_map_values)
qed







end
